theory Spec2Isabelle
  imports Complex_Main "HOL-Library.Sublist" "HOL-Library.Product_Lexorder"
begin

section \<open>Exceptions\<close>

text \<open>
  The NestJS exceptions the services and guards throw, each with its message. A function
  that can throw returns \<open>http_exception + 'a\<close>, with \<open>Inl\<close> for the exception.
  \<open>QueryFailedError\<close> is what the repository's \<open>save\<close> raises when the database
  rejects a row (here: the unique constraint on \<open>users.email\<close>).
\<close>

datatype http_exception =
    NotFoundException string
  | ForbiddenException string
  | UnauthorizedException string
  | ConflictException string
  | QueryFailedError string

section \<open>Users: \<open>user.entity.ts\<close>, \<open>users.service.ts\<close>\<close>

datatype user_role = ADMIN | USER

fun role_string :: "user_role \<Rightarrow> string" where
  "role_string ADMIN = ''admin''"
| "role_string USER = ''user''"

text \<open>
  The columns of the \<open>users\<close> table. \<open>user_id\<close> is the entity's \<open>id\<close> (a generated
  UUID), the timestamps are numbers. The \<open>tasks\<close> relation is not a column.
\<close>

record user =
  user_id :: string
  email :: string
  password :: string
  firstName :: string
  lastName :: string
  role :: user_role
  isActive :: bool
  createdAt :: nat
  updatedAt :: nat

text \<open>\<open>RegisterDto\<close> and \<open>LoginDto\<close>.\<close>

record register_dto =
  reg_email :: string
  reg_password :: string
  reg_firstName :: string
  reg_lastName :: string

record login_dto =
  login_email :: string
  login_password :: string

text \<open>
  The table is the list of its rows. \<open>userRepository.findOne({ where: ... })\<close> gives the
  first row that matches, or null.
\<close>

type_synonym user_repository = "user list"

text \<open>
  \<open>UsersService.create\<close>: \<open>userRepository.create(registerDto)\<close> copies the four fields of
  the DTO, \<open>save\<close> inserts the row. The database supplies the generated id and the
  timestamps (the arguments \<open>new_id\<close> and \<open>now\<close>) and the column defaults
  \<open>role = USER\<close>, \<open>isActive = true\<close>; it rejects a second row with the same email.
\<close>

definition users_create ::
  "string \<Rightarrow> nat \<Rightarrow> user_repository \<Rightarrow> register_dto \<Rightarrow> http_exception + (user \<times> user_repository)" where
  "users_create new_id now repo registerDto =
     (let u = \<lparr> user_id = new_id, email = reg_email registerDto,
                 password = reg_password registerDto,
                 firstName = reg_firstName registerDto, lastName = reg_lastName registerDto,
                 role = USER, isActive = True, createdAt = now, updatedAt = now \<rparr>
      in if list_ex (\<lambda>r. email r = email u) repo
         then Inl (QueryFailedError ''duplicate key value violates unique constraint'')
         else Inr (u, repo @ [u]))"

text \<open>\<open>UsersService.findOne\<close>: throws NotFoundException if the user does not exist.\<close>

definition users_findOne :: "user_repository \<Rightarrow> string \<Rightarrow> http_exception + user" where
  "users_findOne repo i =
     (case find (\<lambda>u. user_id u = i) repo of
        None \<Rightarrow> Inl (NotFoundException (''User with ID '' @ i @ '' not found''))
      | Some u \<Rightarrow> Inr u)"

text \<open>\<open>UsersService.findByEmail\<close>: the row or null, by equality on the email column.\<close>

definition findByEmail :: "user_repository \<Rightarrow> string \<Rightarrow> user option" where
  "findByEmail repo e = find (\<lambda>u. email u = e) repo"

section \<open>Authentication: \<open>auth.service.ts\<close>, \<open>jwt.strategy.ts\<close>\<close>

text \<open>The JWT payload \<open>{ sub, email }\<close> (\<open>iat\<close> and \<open>exp\<close> are added by the signer).\<close>

record jwt_payload =
  sub :: string
  jwt_email :: string

text \<open>The user view \<open>register\<close> and \<open>login\<close> return, and their result.\<close>

record user_view =
  view_id :: string
  view_email :: string
  view_firstName :: string
  view_lastName :: string
  view_role :: user_role

record auth_result =
  auth_user :: user_view
  access_token :: string

definition to_view :: "user \<Rightarrow> user_view" where
  "to_view u = \<lparr> view_id = user_id u, view_email = email u, view_firstName = firstName u,
                 view_lastName = lastName u, view_role = role u \<rparr>"

text \<open>
  \<open>AuthService.generateToken\<close>. \<open>jwtService.sign\<close> is the library's; it is the parameter
  \<open>sign\<close>.
\<close>

definition generateToken :: "(jwt_payload \<Rightarrow> string) \<Rightarrow> string \<Rightarrow> string \<Rightarrow> string" where
  "generateToken sign userId e = sign \<lparr> sub = userId, jwt_email = e \<rparr>"

text \<open>
  \<open>AuthService.register\<close>. \<open>bcrypt.hash(password, 10)\<close> is the parameter \<open>hash\<close>.
  The result is the returned object and the table after the insert.
\<close>

definition register ::
  "(string \<Rightarrow> string) \<Rightarrow> (jwt_payload \<Rightarrow> string) \<Rightarrow> string \<Rightarrow> nat \<Rightarrow>
     user_repository \<Rightarrow> register_dto \<Rightarrow> http_exception + (auth_result \<times> user_repository)" where
  "register hash sign new_id now repo registerDto =
     (case findByEmail repo (reg_email registerDto) of
        Some existingUser \<Rightarrow> Inl (ConflictException ''User with this email already exists'')
      | None \<Rightarrow>
          (let hashedPassword = hash (reg_password registerDto) in
           case users_create new_id now repo (registerDto\<lparr> reg_password := hashedPassword \<rparr>) of
             Inl e \<Rightarrow> Inl e
           | Inr (u, repo') \<Rightarrow>
               (let token = generateToken sign (user_id u) (email u)
                in Inr (\<lparr> auth_user = to_view u, access_token = token \<rparr>, repo'))))"

text \<open>
  \<open>AuthService.login\<close>. \<open>bcrypt.compare(plain, hashed)\<close> is the parameter \<open>compare\<close>.
\<close>

definition login ::
  "(string \<Rightarrow> string \<Rightarrow> bool) \<Rightarrow> (jwt_payload \<Rightarrow> string) \<Rightarrow>
     user_repository \<Rightarrow> login_dto \<Rightarrow> http_exception + auth_result" where
  "login compare sign repo loginDto =
     (case findByEmail repo (login_email loginDto) of
        None \<Rightarrow> Inl (UnauthorizedException ''Invalid credentials'')
      | Some u \<Rightarrow>
          if \<not> isActive u then Inl (UnauthorizedException ''Account is deactivated'')
          else if \<not> compare (login_password loginDto) (password u)
          then Inl (UnauthorizedException ''Invalid credentials'')
          else Inr \<lparr> auth_user = to_view u,
                     access_token = generateToken sign (user_id u) (email u) \<rparr>)"

text \<open>
  \<open>AuthService.validateUser\<close>: \<open>await this.usersService.findOne(payload.sub)\<close> first, so
  an exception of \<open>findOne\<close> leaves the function before its own null check.
\<close>

definition validateUser :: "user_repository \<Rightarrow> jwt_payload \<Rightarrow> http_exception + user option" where
  "validateUser repo payload =
     (case users_findOne repo (sub payload) of
        Inl e \<Rightarrow> Inl e
      | Inr u \<Rightarrow> if \<not> isActive u then Inr None else Inr (Some u))"

text \<open>\<open>JwtStrategy.validate\<close>: a null user becomes Unauthorized.\<close>

definition jwt_validate :: "user_repository \<Rightarrow> jwt_payload \<Rightarrow> http_exception + user" where
  "jwt_validate repo payload =
     (case validateUser repo payload of
        Inl e \<Rightarrow> Inl e
      | Inr None \<Rightarrow> Inl (UnauthorizedException ''User not found or inactive'')
      | Inr (Some u) \<Rightarrow> Inr u)"

section \<open>Guards: \<open>jwt-auth.guard.ts\<close>, \<open>roles.guard.ts\<close>\<close>

text \<open>
  \<open>JwtAuthGuard.handleRequest(err, user, info)\<close>: throws \<open>err\<close> if there is one, Unauthorized
  if there is no user, and returns the user otherwise.
\<close>

definition handleRequest :: "http_exception option \<Rightarrow> user option \<Rightarrow> http_exception + user" where
  "handleRequest err usr =
     (case err of
        Some e \<Rightarrow> Inl e
      | None \<Rightarrow> (case usr of
                   None \<Rightarrow> Inl (UnauthorizedException ''Invalid or expired token'')
                 | Some u \<Rightarrow> Inr u))"

text \<open>JavaScript's \<open>requiredRoles.join(', ')\<close> on the role strings.\<close>

fun join_roles :: "user_role list \<Rightarrow> string" where
  "join_roles [] = []"
| "join_roles [r] = role_string r"
| "join_roles (r # rs) = role_string r @ '', '' @ join_roles rs"

text \<open>
  \<open>RolesGuard.canActivate\<close>. \<open>requiredRoles\<close> is what the reflector finds for the route
  (\<open>None\<close> when no \<open>@Roles\<close> was declared), \<open>usr\<close> is \<open>request.user\<close>.
\<close>

definition canActivate :: "user_role list option \<Rightarrow> user option \<Rightarrow> http_exception + bool" where
  "canActivate requiredRoles usr =
     (case requiredRoles of
        None \<Rightarrow> Inr True
      | Some roles \<Rightarrow>
          if length roles = 0 then Inr True
          else (case usr of
                  None \<Rightarrow> Inl (ForbiddenException ''User not authenticated'')
                | Some u \<Rightarrow>
                    (let hasRole = list_ex (\<lambda>r. role u = r) roles
                     in if \<not> hasRole
                        then Inl (ForbiddenException
                               (''Access denied. Required role(s): '' @ join_roles roles))
                        else Inr True)))"

section \<open>Tasks: \<open>task.entity.ts\<close> and the DTOs\<close>

datatype task_status = TODO | IN_PROGRESS | DONE

datatype task_priority = LOW | MEDIUM | HIGH

text \<open>
  The columns of the \<open>tasks\<close> table. \<open>description\<close> and \<open>dueDate\<close> are nullable;
  \<open>userId\<close> is the owner. Dates are numbers.
\<close>

record task =
  task_id :: string
  title :: string
  description :: "string option"
  status :: task_status
  priority :: task_priority
  dueDate :: "nat option"
  userId :: string
  task_createdAt :: nat
  task_updatedAt :: nat

type_synonym task_repository = "task list"

text \<open>\<open>CreateTaskDto\<close>, and \<open>UpdateTaskDto\<close> (the same fields, all optional).\<close>

record create_task_dto =
  new_title :: string
  new_description :: "string option"
  new_status :: "task_status option"
  new_priority :: "task_priority option"
  new_dueDate :: "nat option"

record update_task_dto =
  upd_title :: "string option"
  upd_description :: "string option"
  upd_status :: "task_status option"
  upd_priority :: "task_priority option"
  upd_dueDate :: "nat option"

datatype sort_field = SortCreatedAt | SortUpdatedAt | SortDueDate | SortPriority

datatype sort_order = ASC | DESC

datatype filter_key = KStatus | KPriority | KSearch | KPage | KLimit | KSortBy | KSortOrder

text \<open>
  \<open>FilterTaskDto\<close>. The three filters are optional; \<open>page\<close>, \<open>limit\<close>, \<open>sortBy\<close> and
  \<open>sortOrder\<close> have defaults, so they are always defined in the service. The DTO is a
  JavaScript object, whose properties have an order: \<open>key_order\<close> lists its own
  properties in that order. The constructor sets the four defaults first, and the
  properties of the query string follow in the order the request gave them, so the same
  criteria can arrive in different orders.
\<close>

record filter_task_dto =
  filter_status :: "task_status option"
  filter_priority :: "task_priority option"
  search :: "string option"
  page :: int
  limit :: int
  sortBy :: sort_field
  sortOrder :: sort_order
  key_order :: "filter_key list"

text \<open>The DTO's defaults, and what its validators accept: \<open>@Min(1)\<close>, \<open>@Max(100)\<close>.\<close>

definition default_filter :: filter_task_dto where
  "default_filter = \<lparr> filter_status = None, filter_priority = None, search = None,
                       page = 1, limit = 10, sortBy = SortCreatedAt, sortOrder = DESC,
                       key_order = [KPage, KLimit, KSortBy, KSortOrder] \<rparr>"

definition valid_filter :: "filter_task_dto \<Rightarrow> bool" where
  "valid_filter f = (1 \<le> page f \<and> 1 \<le> limit f \<and> limit f \<le> 100)"

section \<open>The database's \<open>ILIKE\<close>\<close>

text \<open>
  The search condition is \<open>task.title ILIKE :search OR task.description ILIKE :search\<close>
  with \<open>:search\<close> bound to \<open>%${search}%\<close>. PostgreSQL's \<open>LIKE\<close> reads its pattern as
  follows: \<open>%\<close> matches any sequence of characters, \<open>_\<close> any single character, a
  backslash makes the next character literal, any other character matches itself, and
  the pattern must cover the whole text. A pattern that ends in a lone backslash makes
  PostgreSQL raise; the patterns built here end in \<open>%\<close>, and the model gives \<open>False\<close>
  there. \<open>ILIKE\<close> is \<open>LIKE\<close> on the lower-cased pattern and text (ASCII letters here).
\<close>

fun like_match :: "string \<Rightarrow> string \<Rightarrow> bool" where
  "like_match [] t = (t = [])"
| "like_match (p # ps) [] = (p = CHR ''%'' \<and> like_match ps [])"
| "like_match (p # ps) (c # cs) =
     (if p = CHR ''%'' then like_match ps (c # cs) \<or> like_match (p # ps) cs
      else if p = CHR ''_'' then like_match ps cs
      else if p = CHR 0x5C then
        (case ps of [] \<Rightarrow> False | q # qs \<Rightarrow> q = c \<and> like_match qs cs)
      else p = c \<and> like_match ps cs)"

definition lower_char :: "char \<Rightarrow> char" where
  "lower_char c =
     (let n = (of_char c :: nat) in if 65 \<le> n \<and> n \<le> 90 then char_of (n + 32) else c)"

definition lower :: "string \<Rightarrow> string" where
  "lower s = map lower_char s"

definition ilike :: "string \<Rightarrow> string \<Rightarrow> bool" where
  "ilike t pat = like_match (lower pat) (lower t)"

text \<open>A NULL column makes the comparison unknown, and the row is not selected by it.\<close>

definition ilike_nullable :: "string option \<Rightarrow> string \<Rightarrow> bool" where
  "ilike_nullable t pat = (case t of None \<Rightarrow> False | Some d \<Rightarrow> ilike d pat)"

section \<open>The response cache\<close>

text \<open>
  What \<open>TasksService.findAll\<close> builds: the page of rows and its metadata, whose fields
  \<open>total\<close>, \<open>page\<close> and \<open>limit\<close> are \<open>meta_total\<close>, \<open>meta_page\<close> and \<open>meta_limit\<close> here.
\<close>

record page_meta =
  meta_total :: int
  meta_page :: int
  meta_limit :: int
  totalPages :: int
  hasNextPage :: bool
  hasPreviousPage :: bool

record find_all_result =
  data :: "task list"
  meta :: page_meta

text \<open>
  The values the cache manager holds: the listings \<open>TasksService.findAll\<close> stores and
  the responses of the GET handlers that \<open>HttpCacheInterceptor\<close> stores. All of them are
  JavaScript objects, hence truthy: the tests \<open>if (cachedResult)\<close> and
  \<open>if (cachedResponse)\<close> succeed exactly when the key is present.
\<close>

datatype payload = Listing find_all_result | Single task

text \<open>
  The one cache manager of the application (\<open>CacheModule\<close> is global), as a map from keys
  to values: \<open>get\<close> is application, \<open>set\<close> is update, \<open>reset\<close> gives the empty map.
  Expiry is the store's and is not modelled.
\<close>

type_synonym cache = "string \<rightharpoonup> payload"

definition cache_reset :: "cache \<Rightarrow> cache" where
  "cache_reset c = Map.empty"

section \<open>\<open>tasks.service.ts\<close>\<close>

text \<open>\<open>TasksService.invalidateTasksCache\<close>: resets the entire cache, whatever the user id.\<close>

definition invalidateTasksCache :: "cache \<Rightarrow> string \<Rightarrow> cache" where
  "invalidateTasksCache c uid = cache_reset c"

text \<open>
  \<open>TasksService.create\<close>. The database supplies the id, the timestamps and the defaults
  of \<open>status\<close> and \<open>priority\<close>. The result is the saved task, the table and the cache.
\<close>

definition create ::
  "string \<Rightarrow> nat \<Rightarrow> cache \<Rightarrow> task_repository \<Rightarrow> create_task_dto \<Rightarrow> user \<Rightarrow>
     task \<times> task_repository \<times> cache" where
  "create new_id now c repo createTaskDto u =
     (let savedTask =
        \<lparr> task_id = new_id, title = new_title createTaskDto,
          description = new_description createTaskDto,
          status = (case new_status createTaskDto of None \<Rightarrow> TODO | Some s \<Rightarrow> s),
          priority = (case new_priority createTaskDto of None \<Rightarrow> MEDIUM | Some p \<Rightarrow> p),
          dueDate = new_dueDate createTaskDto, userId = user_id u,
          task_createdAt = now, task_updatedAt = now \<rparr>
      in (savedTask, repo @ [savedTask], invalidateTasksCache c (user_id u)))"

text \<open>
  The key of a listing: \<open>`tasks:${user.id}:${JSON.stringify(filterDto)}`\<close>.
  \<open>JSON.stringify\<close> is the runtime's; it is the parameter \<open>stringify\<close>, a function of
  the DTO with its property order. \<open>JSON_stringify\<close> below is that function as the
  runtime computes it on a \<open>FilterTaskDto\<close>.
\<close>

definition cacheKey :: "(filter_task_dto \<Rightarrow> string) \<Rightarrow> user \<Rightarrow> filter_task_dto \<Rightarrow> string" where
  "cacheKey stringify u filterDto = ''tasks:'' @ user_id u @ '':'' @ stringify filterDto"

text \<open>
  \<open>JSON.stringify\<close> on a \<open>FilterTaskDto\<close>: an opening brace, the properties in the
  object's own order as \<open>"name":value\<close> with commas between them, a closing brace. A
  property whose value is undefined is left out. A number is written in decimal (the
  integers the validators accept, below \<open>10^21\<close>); a string is written between double
  quotes, with the double quote, the backslash and the control characters escaped.
\<close>

fun digit_char :: "nat \<Rightarrow> char" where
  "digit_char n = ''0123456789abcdef'' ! (n mod 16)"

function decimal :: "nat \<Rightarrow> string" where
  "decimal n = (if n < 10 then [digit_char n] else decimal (n div 10) @ [digit_char (n mod 10)])"
  by pat_completeness auto
termination
  by (relation "measure (\<lambda>n. n)") auto

declare decimal.simps [simp del]

definition json_number :: "int \<Rightarrow> string" where
  "json_number i = (if i < 0 then ''-'' @ decimal (nat (- i)) else decimal (nat i))"

definition json_escape :: "char \<Rightarrow> string" where
  "json_escape c =
     (let n = (of_char c :: nat) in
      if c = CHR 0x22 then [CHR 0x5C, CHR 0x22]
      else if c = CHR 0x5C then [CHR 0x5C, CHR 0x5C]
      else if n = 8 then [CHR 0x5C, CHR ''b'']
      else if n = 9 then [CHR 0x5C, CHR ''t'']
      else if n = 10 then [CHR 0x5C, CHR ''n'']
      else if n = 12 then [CHR 0x5C, CHR ''f'']
      else if n = 13 then [CHR 0x5C, CHR ''r'']
      else if n < 32 then [CHR 0x5C, CHR ''u'', CHR ''0'', CHR ''0'',
                           digit_char (n div 16), digit_char (n mod 16)]
      else [c])"

definition json_string :: "string \<Rightarrow> string" where
  "json_string s = [CHR 0x22] @ concat (map json_escape s) @ [CHR 0x22]"

fun status_string :: "task_status \<Rightarrow> string" where
  "status_string TODO = ''todo''"
| "status_string IN_PROGRESS = ''in_progress''"
| "status_string DONE = ''done''"

fun priority_string :: "task_priority \<Rightarrow> string" where
  "priority_string LOW = ''low''"
| "priority_string MEDIUM = ''medium''"
| "priority_string HIGH = ''high''"

fun sort_field_string :: "sort_field \<Rightarrow> string" where
  "sort_field_string SortCreatedAt = ''createdAt''"
| "sort_field_string SortUpdatedAt = ''updatedAt''"
| "sort_field_string SortDueDate = ''dueDate''"
| "sort_field_string SortPriority = ''priority''"

fun sort_order_string :: "sort_order \<Rightarrow> string" where
  "sort_order_string ASC = ''ASC''"
| "sort_order_string DESC = ''DESC''"

fun key_name :: "filter_key \<Rightarrow> string" where
  "key_name KStatus = ''status''"
| "key_name KPriority = ''priority''"
| "key_name KSearch = ''search''"
| "key_name KPage = ''page''"
| "key_name KLimit = ''limit''"
| "key_name KSortBy = ''sortBy''"
| "key_name KSortOrder = ''sortOrder''"

text \<open>The JSON text of a property's value, \<open>None\<close> when the value is undefined.\<close>

fun json_value :: "filter_task_dto \<Rightarrow> filter_key \<Rightarrow> string option" where
  "json_value f KStatus = map_option (\<lambda>x. json_string (status_string x)) (filter_status f)"
| "json_value f KPriority = map_option (\<lambda>x. json_string (priority_string x)) (filter_priority f)"
| "json_value f KSearch = map_option json_string (search f)"
| "json_value f KPage = Some (json_number (page f))"
| "json_value f KLimit = Some (json_number (limit f))"
| "json_value f KSortBy = Some (json_string (sort_field_string (sortBy f)))"
| "json_value f KSortOrder = Some (json_string (sort_order_string (sortOrder f)))"

fun join_commas :: "string list \<Rightarrow> string" where
  "join_commas [] = []"
| "join_commas [x] = x"
| "join_commas (x # xs) = x @ '','' @ join_commas xs"

definition JSON_stringify :: "filter_task_dto \<Rightarrow> string" where
  "JSON_stringify f =
     ''{'' @ join_commas
              (List.map_filter
                 (\<lambda>k. map_option (\<lambda>v. json_string (key_name k) @ '':'' @ v) (json_value f k))
                 (key_order f))
      @ ''}''"

text \<open>
  The WHERE clause of the query builder, condition by condition. \<open>if (search)\<close> is false
  for an absent and for an empty search text.
\<close>

definition search_hit :: "string \<Rightarrow> task \<Rightarrow> bool" where
  "search_hit s t =
     (ilike (title t) (''%'' @ s @ ''%'') \<or> ilike_nullable (description t) (''%'' @ s @ ''%''))"

definition query_where :: "task_repository \<Rightarrow> filter_task_dto \<Rightarrow> user \<Rightarrow> task list" where
  "query_where repo filterDto u =
     (let q0 = filter (\<lambda>t. userId t = user_id u) repo;
          q1 = (case filter_status filterDto of
                  None \<Rightarrow> q0 | Some s \<Rightarrow> filter (\<lambda>t. status t = s) q0);
          q2 = (case filter_priority filterDto of
                  None \<Rightarrow> q1 | Some p \<Rightarrow> filter (\<lambda>t. priority t = p) q1);
          q3 = (case search filterDto of
                  None \<Rightarrow> q2
                | Some s \<Rightarrow> if s = [] then q2 else filter (search_hit s) q2)
      in q3)"

text \<open>
  \<open>orderBy(`task.${sortBy}`, sortOrder)\<close>. The enum column \<open>priority\<close> orders by the
  position of the label in the enum; a NULL \<open>dueDate\<close> sorts as larger than every date.
  SQL leaves the order of rows with equal keys open: the model keeps the table's order
  among them for ASC, and reverses the whole result for DESC.
\<close>

fun priority_rank :: "task_priority \<Rightarrow> nat" where
  "priority_rank LOW = 0"
| "priority_rank MEDIUM = 1"
| "priority_rank HIGH = 2"

fun sort_rank :: "sort_field \<Rightarrow> task \<Rightarrow> nat \<times> nat" where
  "sort_rank SortCreatedAt t = (0, task_createdAt t)"
| "sort_rank SortUpdatedAt t = (0, task_updatedAt t)"
| "sort_rank SortDueDate t = (case dueDate t of None \<Rightarrow> (1, 0) | Some d \<Rightarrow> (0, d))"
| "sort_rank SortPriority t = (0, priority_rank (priority t))"

fun orderBy :: "sort_field \<Rightarrow> sort_order \<Rightarrow> task list \<Rightarrow> task list" where
  "orderBy f ASC rows = sort_key (sort_rank f) rows"
| "orderBy f DESC rows = rev (sort_key (sort_rank f) rows)"

text \<open>
  \<open>query.skip((page - 1) * limit).take(limit).getManyAndCount()\<close>: the page of the ordered
  rows, and the number of rows before pagination.
\<close>

definition getManyAndCount ::
  "task_repository \<Rightarrow> filter_task_dto \<Rightarrow> user \<Rightarrow> task list \<times> int" where
  "getManyAndCount repo filterDto u =
     (let rows = query_where repo filterDto u;
          ordered = orderBy (sortBy filterDto) (sortOrder filterDto) rows
      in (take (nat (limit filterDto))
            (drop (nat ((page filterDto - 1) * limit filterDto)) ordered),
          int (length rows)))"

text \<open>
  \<open>Math.ceil(total / limit)\<close>, on exact numbers. The validators of the DTO keep \<open>limit\<close>
  at 1 or more; JavaScript's quotient by 0 (Infinity or NaN) is outside the model.
\<close>

definition math_ceil_div :: "int \<Rightarrow> int \<Rightarrow> int" where
  "math_ceil_div a b = \<lceil>real_of_int a / real_of_int b\<rceil>"

definition build_result :: "task list \<times> int \<Rightarrow> filter_task_dto \<Rightarrow> find_all_result" where
  "build_result tc filterDto =
     (case tc of (tasks, tot) \<Rightarrow>
        \<lparr> data = tasks,
          meta = \<lparr> meta_total = tot, meta_page = page filterDto, meta_limit = limit filterDto,
                   totalPages = math_ceil_div tot (limit filterDto),
                   hasNextPage = (page filterDto < math_ceil_div tot (limit filterDto)),
                   hasPreviousPage = (page filterDto > 1) \<rparr> \<rparr>)"

text \<open>
  \<open>TasksService.findAll\<close>: the cached value if the key is present, else the query, whose
  result is stored under the key. The result is what is returned, and the cache.
\<close>

definition findAll ::
  "(filter_task_dto \<Rightarrow> string) \<Rightarrow> cache \<Rightarrow> task_repository \<Rightarrow> filter_task_dto \<Rightarrow> user \<Rightarrow>
     payload \<times> cache" where
  "findAll stringify c repo filterDto u =
     (let key = cacheKey stringify u filterDto in
      case c key of
        Some cachedResult \<Rightarrow> (cachedResult, c)
      | None \<Rightarrow>
          (let result = build_result (getManyAndCount repo filterDto u) filterDto
           in (Listing result, c(key \<mapsto> Listing result))))"

text \<open>\<open>TasksService.findOne\<close>: the row with that id, with the ownership check.\<close>

definition findOne :: "task_repository \<Rightarrow> string \<Rightarrow> user \<Rightarrow> http_exception + task" where
  "findOne repo i u =
     (case find (\<lambda>t. task_id t = i) repo of
        None \<Rightarrow> Inl (NotFoundException (''Task with ID '' @ i @ '' not found''))
      | Some t \<Rightarrow>
          if userId t \<noteq> user_id u \<and> role u \<noteq> ADMIN
          then Inl (ForbiddenException ''You can only access your own tasks'')
          else Inr t)"

text \<open>
  \<open>Object.assign(task, updateTaskDto)\<close>: the fields the DTO provides replace the task's.
\<close>

definition assign :: "task \<Rightarrow> update_task_dto \<Rightarrow> task" where
  "assign t d =
     t\<lparr> title := (case upd_title d of None \<Rightarrow> title t | Some x \<Rightarrow> x),
        description := (case upd_description d of None \<Rightarrow> description t | Some x \<Rightarrow> Some x),
        status := (case upd_status d of None \<Rightarrow> status t | Some x \<Rightarrow> x),
        priority := (case upd_priority d of None \<Rightarrow> priority t | Some x \<Rightarrow> x),
        dueDate := (case upd_dueDate d of None \<Rightarrow> dueDate t | Some x \<Rightarrow> Some x) \<rparr>"

text \<open>
  \<open>taskRepository.save\<close> of a loaded row: the row with that id is replaced, and
  \<open>updatedAt\<close> is set when a column changed.
\<close>

definition save_task :: "nat \<Rightarrow> task_repository \<Rightarrow> task \<Rightarrow> task \<Rightarrow> task \<times> task_repository" where
  "save_task now repo old t =
     (let saved = (if t = old then t else t\<lparr> task_updatedAt := now \<rparr>)
      in (saved, map (\<lambda>r. if task_id r = task_id saved then saved else r) repo))"

text \<open>
  \<open>TasksService.update\<close> and \<open>TasksService.remove\<close>: an exception of \<open>findOne\<close> leaves
  the table and the cache as they were.
\<close>

definition update ::
  "nat \<Rightarrow> cache \<Rightarrow> task_repository \<Rightarrow> string \<Rightarrow> update_task_dto \<Rightarrow> user \<Rightarrow>
     (http_exception + task) \<times> task_repository \<times> cache" where
  "update now c repo i updateTaskDto u =
     (case findOne repo i u of
        Inl e \<Rightarrow> (Inl e, repo, c)
      | Inr t \<Rightarrow>
          (case save_task now repo t (assign t updateTaskDto) of
             (updatedTask, repo') \<Rightarrow>
               (Inr updatedTask, repo', invalidateTasksCache c (user_id u))))"

definition remove ::
  "cache \<Rightarrow> task_repository \<Rightarrow> string \<Rightarrow> user \<Rightarrow>
     (http_exception + unit) \<times> task_repository \<times> cache" where
  "remove c repo i u =
     (case findOne repo i u of
        Inl e \<Rightarrow> (Inl e, repo, c)
      | Inr t \<Rightarrow>
          (Inr (), filter (\<lambda>r. task_id r \<noteq> task_id t) repo,
           invalidateTasksCache c (user_id u)))"

section \<open>\<open>cache.interceptor.ts\<close> and \<open>tasks.controller.ts\<close>\<close>

text \<open>
  What the interceptor and the handler see of a request: the method (\<open>req_method\<close>), the URL with its
  query string, the \<open>FilterTaskDto\<close> the validation pipe built from that query string,
  and the user the authentication attached, if any.
\<close>

record request =
  req_method :: string
  url :: string
  query :: filter_task_dto
  req_user :: "user option"

definition http_cache_key :: "request \<Rightarrow> string" where
  "http_cache_key req = ''cache:'' @ url req"

text \<open>
  \<open>HttpCacheInterceptor.intercept\<close>. \<open>next.handle()\<close> is the parameter \<open>handle\<close>: it runs
  the route handler on the cache and gives its response, or its exception, and the cache.
  A response is stored under the key; an exception is not.
\<close>

definition intercept ::
  "cache \<Rightarrow> request \<Rightarrow> (cache \<Rightarrow> (http_exception + payload) \<times> cache) \<Rightarrow>
     (http_exception + payload) \<times> cache" where
  "intercept c req handle =
     (if req_method req \<noteq> ''GET'' then handle c
      else (let k = http_cache_key req in
            case c k of
              Some cachedResponse \<Rightarrow> (Inr cachedResponse, c)
            | None \<Rightarrow>
                (case handle c of
                   (Inl e, c') \<Rightarrow> (Inl e, c')
                 | (Inr response, c') \<Rightarrow> (Inr response, c'(k \<mapsto> response)))))"

text \<open>
  \<open>TasksController.findAll\<close>, a GET route behind \<open>@UseGuards(JwtAuthGuard)\<close> and
  \<open>@UseInterceptors(HttpCacheInterceptor)\<close>: the guard runs first and rejects a request
  without a user, then the interceptor, then \<open>tasksService.findAll(filterDto, user)\<close>.
\<close>

definition controller_findAll ::
  "(filter_task_dto \<Rightarrow> string) \<Rightarrow> task_repository \<Rightarrow> cache \<Rightarrow> request \<Rightarrow>
     (http_exception + payload) \<times> cache" where
  "controller_findAll stringify repo c req =
     (case handleRequest None (req_user req) of
        Inl e \<Rightarrow> (Inl e, c)
      | Inr u \<Rightarrow>
          intercept c req
            (\<lambda>c0. case findAll stringify c0 repo (query req) u of (r, c1) \<Rightarrow> (Inr r, c1)))"

text \<open>
  \<open>TasksController.findOne\<close>, the GET route \<open>:id\<close> behind the same guard and
  interceptor; \<open>i\<close> is the id the route parameter holds.
\<close>

definition controller_findOne ::
  "task_repository \<Rightarrow> cache \<Rightarrow> request \<Rightarrow> string \<Rightarrow> (http_exception + payload) \<times> cache" where
  "controller_findOne repo c req i =
     (case handleRequest None (req_user req) of
        Inl e \<Rightarrow> (Inl e, c)
      | Inr u \<Rightarrow>
          intercept c req
            (\<lambda>c0. (case findOne repo i u of Inl e \<Rightarrow> Inl e | Inr t \<Rightarrow> Inr (Single t), c0)))"

section \<open>Properties the specification names\<close>

text \<open>
  The relations the specification states among the fields of the page metadata:
  \<open>totalPages = ceil(total/limit)\<close>, \<open>hasNextPage = (page < totalPages)\<close> and
  \<open>hasPreviousPage = (page > 1)\<close>.
\<close>

definition meta_consistent :: "page_meta \<Rightarrow> bool" where
  "meta_consistent m =
     (totalPages m = \<lceil>real_of_int (meta_total m) / real_of_int (meta_limit m)\<rceil>
      \<and> hasNextPage m = (meta_page m < totalPages m)
      \<and> hasPreviousPage m = (1 < meta_page m))"

text \<open>
  The invariant of the cache: under a key that starts with \<open>tasks:\<close> there is a listing
  whose metadata is consistent. The empty cache has it, and every operation keeps it.
\<close>

definition listings_consistent :: "cache \<Rightarrow> bool" where
  "listings_consistent c =
     (\<forall>k r. c k = Some r \<longrightarrow> prefix ''tasks:'' k \<longrightarrow>
            (\<exists>res. r = Listing res \<and> meta_consistent (meta res)))"

fun listing_meta :: "payload \<Rightarrow> page_meta option" where
  "listing_meta (Listing res) = Some (meta res)"
| "listing_meta (Single t) = None"

text \<open>
  In a state where every list call recomputes, no call is answered from the cache: each
  returns the result of the query on the table as it is.
\<close>

definition recomputes :: "(filter_task_dto \<Rightarrow> string) \<Rightarrow> task_repository \<Rightarrow> cache \<Rightarrow> bool" where
  "recomputes stringify repo c =
     (\<forall>u f. fst (findAll stringify c repo f u) =
              Listing (build_result (getManyAndCount repo f u) f))"

text \<open>
  The criteria value of a DTO: its seven fields, whatever the order of its properties.
\<close>

definition criteria ::
  "filter_task_dto \<Rightarrow>
     task_status option \<times> task_priority option \<times> string option \<times> int \<times> int \<times> sort_field \<times> sort_order" where
  "criteria f =
     (filter_status f, filter_priority f, search f, page f, limit f, sortBy f, sortOrder f)"

text \<open>
  A search text is literal when it has none of the characters \<open>LIKE\<close> reads specially.
  \<open>contains_ci s x\<close>: \<open>x\<close> contains \<open>s\<close> as a substring, letter case aside.
\<close>

definition literal_text :: "string \<Rightarrow> bool" where
  "literal_text s = (\<forall>c\<in>set s. c \<noteq> CHR ''%'' \<and> c \<noteq> CHR ''_'' \<and> c \<noteq> CHR 0x5C)"

definition contains_ci :: "string \<Rightarrow> string \<Rightarrow> bool" where
  "contains_ci s x = sublist (lower s) (lower x)"

section \<open>Example data\<close>

definition ann :: user where
  "ann = \<lparr> user_id = ''u-ann'', email = ''ann@example.com'', password = ''bcrypt:Secret123'',
           firstName = ''Ann'', lastName = ''Lee'', role = USER, isActive = True,
           createdAt = 1, updatedAt = 1 \<rparr>"

definition bob :: user where
  "bob = \<lparr> user_id = ''u-bob'', email = ''bob@example.com'', password = ''bcrypt:Hunter22A'',
           firstName = ''Bob'', lastName = ''Ray'', role = USER, isActive = True,
           createdAt = 2, updatedAt = 2 \<rparr>"

definition dan :: user where
  "dan = \<lparr> user_id = ''u-dan'', email = ''dan@example.com'', password = ''bcrypt:Passw0rdX'',
           firstName = ''Dan'', lastName = ''Fox'', role = USER, isActive = False,
           createdAt = 3, updatedAt = 4 \<rparr>"

definition rita :: user where
  "rita = \<lparr> user_id = ''u-rita'', email = ''rita@example.com'', password = ''bcrypt:Adm1nPass'',
            firstName = ''Rita'', lastName = ''Roe'', role = ADMIN, isActive = True,
            createdAt = 0, updatedAt = 0 \<rparr>"

definition example_hash :: "string \<Rightarrow> string" where
  "example_hash p = ''bcrypt:'' @ p"

definition example_compare :: "string \<Rightarrow> string \<Rightarrow> bool" where
  "example_compare p h = (h = example_hash p)"

definition example_sign :: "jwt_payload \<Rightarrow> string" where
  "example_sign p = ''jwt:'' @ sub p @ '':'' @ jwt_email p"

definition example_stringify :: "filter_task_dto \<Rightarrow> string" where
  "example_stringify f = (case search f of None \<Rightarrow> ''{}'' | Some s \<Rightarrow> ''{search:'' @ s @ ''}'')"

text \<open>
  The DTOs of \<open>?status=done&priority=medium\<close> and of \<open>?priority=medium&status=done\<close>.
\<close>

definition done_medium_filter :: filter_task_dto where
  "done_medium_filter =
     default_filter\<lparr> filter_status := Some DONE, filter_priority := Some MEDIUM,
                      key_order := [KPage, KLimit, KSortBy, KSortOrder, KStatus, KPriority] \<rparr>"

definition medium_done_filter :: filter_task_dto where
  "medium_done_filter =
     default_filter\<lparr> filter_status := Some DONE, filter_priority := Some MEDIUM,
                      key_order := [KPage, KLimit, KSortBy, KSortOrder, KPriority, KStatus] \<rparr>"

definition bob_task :: task where
  "bob_task = \<lparr> task_id = ''t-1'', title = ''Pay rent'', description = None, status = TODO,
                priority = MEDIUM, dueDate = None, userId = ''u-bob'',
                task_createdAt = 5, task_updatedAt = 5 \<rparr>"

definition ann_task :: task where
  "ann_task = \<lparr> task_id = ''t-2'', title = ''Book flights'', description = Some ''to Oslo'',
                status = IN_PROGRESS, priority = HIGH, dueDate = Some 90, userId = ''u-ann'',
                task_createdAt = 6, task_updatedAt = 7 \<rparr>"

definition report_task :: task where
  "report_task = \<lparr> task_id = ''t-3'', title = ''Quarterly Report'', description = None,
                   status = DONE, priority = MEDIUM, dueDate = None, userId = ''u-ann'',
                   task_createdAt = 8, task_updatedAt = 8 \<rparr>"

definition reboot_task :: task where
  "reboot_task = \<lparr> task_id = ''t-4'', title = ''Reboot server'', description = None,
                   status = DONE, priority = LOW, dueDate = None, userId = ''u-ann'',
                   task_createdAt = 9, task_updatedAt = 9 \<rparr>"

text \<open>\<open>k\<close> rows of one owner, with ids \<open>n\<close>, \<open>nn\<close>, \<open>nnn\<close>, ...\<close>

definition numbered_tasks :: "nat \<Rightarrow> task list" where
  "numbered_tasks k =
     map (\<lambda>n. \<lparr> task_id = replicate (Suc n) CHR ''n'', title = ''Chore'', description = None,
                 status = TODO, priority = MEDIUM, dueDate = None, userId = ''u-ann'',
                 task_createdAt = n, task_updatedAt = n \<rparr>) [0..<k]"

definition get_task :: "string \<Rightarrow> user \<Rightarrow> request" where
  "get_task i u = \<lparr> req_method = ''GET'', url = ''/api/v1/tasks/'' @ i, query = default_filter,
                    req_user = Some u \<rparr>"

definition get_tasks :: "user \<Rightarrow> request" where
  "get_tasks u = \<lparr> req_method = ''GET'', url = ''/api/v1/tasks'', query = default_filter,
                   req_user = Some u \<rparr>"

section \<open>Lookups in a table\<close>

lemma find_None_iff_all: "(find P xs = None) = (\<forall>x\<in>set xs. \<not> P x)"
  by (induction xs) auto

lemma find_distinct_key:
  "distinct (map k xs) \<Longrightarrow> x \<in> set xs \<Longrightarrow> find (\<lambda>r. k r = k x) xs = Some x"
proof (induction xs)
  case Nil
  then show ?case by simp
next
  case (Cons a xs)
  show ?case
  proof (cases "a = x")
    case True
    then show ?thesis by simp
  next
    case False
    with Cons.prems have xin: "x \<in> set xs" by simp
    from Cons.prems have "k a \<notin> k ` set xs" by simp
    with xin have "k a \<noteq> k x" by blast
    with Cons.IH Cons.prems xin show ?thesis by simp
  qed
qed

section \<open>Token validation\<close>

lemma validateUser_missing:
  "\<forall>u\<in>set repo. user_id u \<noteq> sub p \<Longrightarrow>
     validateUser repo p = Inl (NotFoundException (''User with ID '' @ sub p @ '' not found''))"
  by (simp add: validateUser_def users_findOne_def find_None_iff_all[THEN iffD2])

lemma validateUser_inactive:
  "find (\<lambda>u. user_id u = sub p) repo = Some u \<Longrightarrow> \<not> isActive u \<Longrightarrow>
     validateUser repo p = Inr None"
  by (simp add: validateUser_def users_findOne_def)

lemma validateUser_active:
  "find (\<lambda>u. user_id u = sub p) repo = Some u \<Longrightarrow> isActive u \<Longrightarrow>
     validateUser repo p = Inr (Some u)"
  by (simp add: validateUser_def users_findOne_def)

text \<open>
  Claim C1 says that \<open>validateUser\<close> returns null, and raises nothing, when the user of
  \<open>payload.sub\<close> is missing. The code does so for an inactive user
  (\<open>validateUser_inactive\<close>), but not for a missing one: \<open>UsersService.findOne\<close> throws
  NotFoundException, and \<open>validateUser\<close> lets it pass. Here the table holds Ann and
  Dan, and the token names a user that was deleted; the exception reaches the caller of
  \<open>JwtStrategy.validate\<close> as NotFound, not as Unauthorized.
\<close>

theorem validateUser_missing_user_throws:
  "validateUser [ann, dan] \<lparr> sub = ''u-gone'', jwt_email = ''gone@example.com'' \<rparr>
     = Inl (NotFoundException ''User with ID u-gone not found'')
   \<and> jwt_validate [ann, dan] \<lparr> sub = ''u-gone'', jwt_email = ''gone@example.com'' \<rparr>
     = Inl (NotFoundException ''User with ID u-gone not found'')
   \<and> validateUser [ann, dan] \<lparr> sub = ''u-dan'', jwt_email = ''dan@example.com'' \<rparr> = Inr None"
  by (simp add: jwt_validate_def validateUser_def users_findOne_def ann_def dan_def)

section \<open>Reading one task\<close>

text \<open>
  Claim C3: \<open>findOne\<close> fails with NotFound when no row has the id, with Forbidden when
  the row's owner is not the caller and the caller is not an admin, and returns the row
  otherwise. The id is the primary key, so no two rows share it.
\<close>

theorem findOne_outcomes:
  assumes pk: "distinct (map task_id repo)"
  shows "((\<forall>t\<in>set repo. task_id t \<noteq> i) \<longrightarrow>
            findOne repo i u = Inl (NotFoundException (''Task with ID '' @ i @ '' not found'')))
       \<and> (\<forall>t\<in>set repo. task_id t = i \<longrightarrow>
            (userId t \<noteq> user_id u \<and> role u \<noteq> ADMIN \<longrightarrow>
               findOne repo i u = Inl (ForbiddenException ''You can only access your own tasks''))
          \<and> (userId t = user_id u \<or> role u = ADMIN \<longrightarrow> findOne repo i u = Inr t))"
proof (intro conjI impI ballI)
  assume "\<forall>t\<in>set repo. task_id t \<noteq> i"
  then have "find (\<lambda>t. task_id t = i) repo = None" by (simp add: find_None_iff_all)
  then show "findOne repo i u = Inl (NotFoundException (''Task with ID '' @ i @ '' not found''))"
    by (simp add: findOne_def)
next
  fix t assume t: "t \<in> set repo" "task_id t = i"
  with pk have f: "find (\<lambda>r. task_id r = i) repo = Some t"
    using find_distinct_key[of task_id repo t] by simp
  { assume "userId t \<noteq> user_id u \<and> role u \<noteq> ADMIN"
    with f show "findOne repo i u = Inl (ForbiddenException ''You can only access your own tasks'')"
      by (simp add: findOne_def) }
  { assume "userId t = user_id u \<or> role u = ADMIN"
    with f show "findOne repo i u = Inr t" by (auto simp add: findOne_def) }
qed

text \<open>
  Bob's task, asked for by Ann (not an admin), by the admin, and by Bob; and an id that
  no row has.
\<close>

theorem findOne_outcomes_witness:
  "distinct (map task_id [ann_task, bob_task])
   \<and> findOne [ann_task, bob_task] ''t-1'' ann
       = Inl (ForbiddenException ''You can only access your own tasks'')
   \<and> findOne [ann_task, bob_task] ''t-1'' rita = Inr bob_task
   \<and> findOne [ann_task, bob_task] ''t-1'' bob = Inr bob_task
   \<and> findOne [ann_task, bob_task] ''t-9'' ann
       = Inl (NotFoundException ''Task with ID t-9 not found'')"
proof -
  have pk: "distinct (map task_id [ann_task, bob_task])"
    by (simp add: ann_task_def bob_task_def)
  have ids: "task_id bob_task = ''t-1''" "task_id ann_task = ''t-2''"
    "userId bob_task = ''u-bob''"
    "user_id ann = ''u-ann''" "user_id bob = ''u-bob''"
    "role ann = USER" "role rita = ADMIN"
    by (simp_all add: ann_task_def bob_task_def ann_def bob_def rita_def)
  from findOne_outcomes[OF pk, of "''t-1''" ann] ids
  have 1: "findOne [ann_task, bob_task] ''t-1'' ann
             = Inl (ForbiddenException ''You can only access your own tasks'')" by simp
  from findOne_outcomes[OF pk, of "''t-1''" rita] ids
  have 2: "findOne [ann_task, bob_task] ''t-1'' rita = Inr bob_task" by simp
  from findOne_outcomes[OF pk, of "''t-1''" bob] ids
  have 3: "findOne [ann_task, bob_task] ''t-1'' bob = Inr bob_task" by simp
  from findOne_outcomes[OF pk, of "''t-9''" ann] ids
  have 4: "findOne [ann_task, bob_task] ''t-9'' ann
             = Inl (NotFoundException ''Task with ID t-9 not found'')" by simp
  from pk 1 2 3 4 show ?thesis by simp
qed

section \<open>Login\<close>

text \<open>
  Claim C4: the three failures of \<open>login\<close> are all Unauthorized. An unknown email and a
  wrong password give the same message, an inactive account gives another one. The
  account is checked before the password, so an inactive account gives its message
  whatever the password.
\<close>

theorem login_failures:
  "((\<forall>u\<in>set repo. email u \<noteq> login_email d) \<longrightarrow>
       login compare sign repo d = Inl (UnauthorizedException ''Invalid credentials''))
   \<and> (\<forall>u. findByEmail repo (login_email d) = Some u \<longrightarrow>
        (\<not> isActive u \<longrightarrow>
           login compare sign repo d = Inl (UnauthorizedException ''Account is deactivated''))
      \<and> (isActive u \<and> \<not> compare (login_password d) (password u) \<longrightarrow>
           login compare sign repo d = Inl (UnauthorizedException ''Invalid credentials'')))
   \<and> UnauthorizedException ''Invalid credentials''
       \<noteq> UnauthorizedException ''Account is deactivated''"
  by (auto simp add: login_def findByEmail_def find_None_iff_all[THEN iffD2])

theorem login_failures_witness:
  "login example_compare example_sign [ann, dan]
       \<lparr> login_email = ''eve@example.com'', login_password = ''Secret123'' \<rparr>
     = Inl (UnauthorizedException ''Invalid credentials'')
   \<and> login example_compare example_sign [ann, dan]
       \<lparr> login_email = ''ann@example.com'', login_password = ''Wrong1234'' \<rparr>
     = Inl (UnauthorizedException ''Invalid credentials'')
   \<and> login example_compare example_sign [ann, dan]
       \<lparr> login_email = ''dan@example.com'', login_password = ''Passw0rdX'' \<rparr>
     = Inl (UnauthorizedException ''Account is deactivated'')"
proof -
  have e: "email ann = ''ann@example.com''" "email dan = ''dan@example.com''"
    "isActive ann" "\<not> isActive dan" "password ann = ''bcrypt:Secret123''"
    by (simp_all add: ann_def dan_def)
  have fa: "findByEmail [ann, dan] ''ann@example.com'' = Some ann"
    and fd: "findByEmail [ann, dan] ''dan@example.com'' = Some dan"
    using e by (simp_all add: findByEmail_def)
  from e login_failures[of "[ann, dan]"
      "\<lparr> login_email = ''eve@example.com'', login_password = ''Secret123'' \<rparr>"
      example_compare example_sign]
  have 1: "login example_compare example_sign [ann, dan]
       \<lparr> login_email = ''eve@example.com'', login_password = ''Secret123'' \<rparr>
     = Inl (UnauthorizedException ''Invalid credentials'')" by simp
  from e fa login_failures[of "[ann, dan]"
      "\<lparr> login_email = ''ann@example.com'', login_password = ''Wrong1234'' \<rparr>"
      example_compare example_sign]
  have 2: "login example_compare example_sign [ann, dan]
       \<lparr> login_email = ''ann@example.com'', login_password = ''Wrong1234'' \<rparr>
     = Inl (UnauthorizedException ''Invalid credentials'')"
    by (simp add: example_compare_def example_hash_def)
  from e fd login_failures[of "[ann, dan]"
      "\<lparr> login_email = ''dan@example.com'', login_password = ''Passw0rdX'' \<rparr>"
      example_compare example_sign]
  have 3: "login example_compare example_sign [ann, dan]
       \<lparr> login_email = ''dan@example.com'', login_password = ''Passw0rdX'' \<rparr>
     = Inl (UnauthorizedException ''Account is deactivated'')" by simp
  from 1 2 3 show ?thesis by simp
qed

section \<open>Registration\<close>

lemma users_create_fresh:
  "\<forall>r\<in>set repo. email r \<noteq> reg_email d \<Longrightarrow>
   users_create nid now repo d =
     Inr (\<lparr> user_id = nid, email = reg_email d, password = reg_password d,
            firstName = reg_firstName d, lastName = reg_lastName d,
            role = USER, isActive = True, createdAt = now, updatedAt = now \<rparr>,
          repo @ [\<lparr> user_id = nid, email = reg_email d, password = reg_password d,
            firstName = reg_firstName d, lastName = reg_lastName d,
            role = USER, isActive = True, createdAt = now, updatedAt = now \<rparr>])"
  by (simp add: users_create_def Let_def list_ex_iff)

lemma register_fresh:
  assumes "\<forall>r\<in>set repo. email r \<noteq> reg_email d"
  shows "register hash sign nid now repo d =
     Inr (\<lparr> auth_user = \<lparr> view_id = nid, view_email = reg_email d,
                           view_firstName = reg_firstName d, view_lastName = reg_lastName d,
                           view_role = USER \<rparr>,
            access_token = sign \<lparr> sub = nid, jwt_email = reg_email d \<rparr> \<rparr>,
          repo @ [\<lparr> user_id = nid, email = reg_email d, password = hash (reg_password d),
                    firstName = reg_firstName d, lastName = reg_lastName d,
                    role = USER, isActive = True, createdAt = now, updatedAt = now \<rparr>])"
proof -
  from assms have "findByEmail repo (reg_email d) = None"
    by (simp add: findByEmail_def find_None_iff_all)
  moreover from assms
  have "\<forall>r\<in>set repo. email r \<noteq> reg_email (d\<lparr> reg_password := hash (reg_password d) \<rparr>)"
    by simp
  ultimately show ?thesis
    by (simp add: register_def users_create_fresh to_view_def generateToken_def)
qed

lemma register_taken:
  assumes "\<exists>r\<in>set repo. email r = reg_email d"
  shows "register hash sign nid now repo d =
           Inl (ConflictException ''User with this email already exists'')"
proof -
  from assms have "findByEmail repo (reg_email d) \<noteq> None"
    by (simp add: findByEmail_def find_None_iff_all)
  then show ?thesis by (auto simp add: register_def)
qed

text \<open>
  Claim C5. \<open>register\<close> fails with Conflict when a stored email equals the given one.
  Otherwise it appends the new user, with the hashed password, role \<open>USER\<close> and
  \<open>isActive\<close> set, and returns the view of that user and a token signed for its id and
  email. The view has no password field, and the returned object does not depend on the
  password or on the hash function. After a successful registration, one with the same
  email fails with Conflict.
\<close>

theorem register_outcomes:
  "((\<exists>r\<in>set repo. email r = reg_email d) \<longrightarrow>
      register hash sign nid now repo d =
        Inl (ConflictException ''User with this email already exists''))
   \<and> ((\<forall>r\<in>set repo. email r \<noteq> reg_email d) \<longrightarrow>
        register hash sign nid now repo d =
          Inr (\<lparr> auth_user = \<lparr> view_id = nid, view_email = reg_email d,
                                view_firstName = reg_firstName d,
                                view_lastName = reg_lastName d, view_role = USER \<rparr>,
                 access_token = generateToken sign nid (reg_email d) \<rparr>,
               repo @ [\<lparr> user_id = nid, email = reg_email d,
                         password = hash (reg_password d),
                         firstName = reg_firstName d, lastName = reg_lastName d,
                         role = USER, isActive = True, createdAt = now, updatedAt = now \<rparr>])
      \<and> (\<forall>hash' pw'.
            map_sum id fst (register hash' sign nid now repo (d\<lparr> reg_password := pw' \<rparr>)) =
            map_sum id fst (register hash sign nid now repo d))
      \<and> (\<forall>res repo' d' nid' now'.
            register hash sign nid now repo d = Inr (res, repo') \<and> reg_email d' = reg_email d \<longrightarrow>
            register hash sign nid' now' repo' d' =
              Inl (ConflictException ''User with this email already exists'')))"
proof (intro conjI impI allI)
  assume "\<exists>r\<in>set repo. email r = reg_email d"
  then show "register hash sign nid now repo d =
        Inl (ConflictException ''User with this email already exists'')"
    by (rule register_taken)
next
  assume fresh: "\<forall>r\<in>set repo. email r \<noteq> reg_email d"
  then show "register hash sign nid now repo d =
          Inr (\<lparr> auth_user = \<lparr> view_id = nid, view_email = reg_email d,
                                view_firstName = reg_firstName d,
                                view_lastName = reg_lastName d, view_role = USER \<rparr>,
                 access_token = generateToken sign nid (reg_email d) \<rparr>,
               repo @ [\<lparr> user_id = nid, email = reg_email d,
                         password = hash (reg_password d),
                         firstName = reg_firstName d, lastName = reg_lastName d,
                         role = USER, isActive = True, createdAt = now, updatedAt = now \<rparr>])"
    by (simp add: register_fresh generateToken_def)
next
  fix hash' pw'
  assume fresh: "\<forall>r\<in>set repo. email r \<noteq> reg_email d"
  then have "\<forall>r\<in>set repo. email r \<noteq> reg_email (d\<lparr> reg_password := pw' \<rparr>)" by simp
  from register_fresh[OF this, of hash' sign nid now] register_fresh[OF fresh, of hash sign nid now]
  show "map_sum id fst (register hash' sign nid now repo (d\<lparr> reg_password := pw' \<rparr>)) =
        map_sum id fst (register hash sign nid now repo d)"
    by simp
next
  fix res repo' nid' now' and d' :: register_dto
  assume fresh: "\<forall>r\<in>set repo. email r \<noteq> reg_email d"
    and "register hash sign nid now repo d = Inr (res, repo') \<and> reg_email d' = reg_email d"
  with register_fresh[OF fresh, of hash sign nid now]
  have "\<exists>r\<in>set repo'. email r = reg_email d'" by auto
  then show "register hash sign nid' now' repo' d' =
              Inl (ConflictException ''User with this email already exists'')"
    by (rule register_taken)
qed

text \<open>Eve registers in a table that holds Ann, and then registers again.\<close>

theorem register_outcomes_witness:
  "register example_hash example_sign ''u-eve'' 10 [ann]
       \<lparr> reg_email = ''eve@example.com'', reg_password = ''Str0ngPass'',
         reg_firstName = ''Eve'', reg_lastName = ''Moe'' \<rparr>
     = Inr (\<lparr> auth_user = \<lparr> view_id = ''u-eve'', view_email = ''eve@example.com'',
                            view_firstName = ''Eve'', view_lastName = ''Moe'',
                            view_role = USER \<rparr>,
              access_token = ''jwt:u-eve:eve@example.com'' \<rparr>,
            [ann, \<lparr> user_id = ''u-eve'', email = ''eve@example.com'',
                    password = ''bcrypt:Str0ngPass'', firstName = ''Eve'', lastName = ''Moe'',
                    role = USER, isActive = True, createdAt = 10, updatedAt = 10 \<rparr>])
   \<and> register example_hash example_sign ''u-eve2'' 11
       [ann, \<lparr> user_id = ''u-eve'', email = ''eve@example.com'',
               password = ''bcrypt:Str0ngPass'', firstName = ''Eve'', lastName = ''Moe'',
               role = USER, isActive = True, createdAt = 10, updatedAt = 10 \<rparr>]
       \<lparr> reg_email = ''eve@example.com'', reg_password = ''Str0ngPass'',
         reg_firstName = ''Eve'', reg_lastName = ''Moe'' \<rparr>
     = Inl (ConflictException ''User with this email already exists'')
   \<and> register example_hash example_sign ''u-ann2'' 12 [ann]
       \<lparr> reg_email = ''ann@example.com'', reg_password = ''An0therPass'',
         reg_firstName = ''Ann'', reg_lastName = ''Lee'' \<rparr>
     = Inl (ConflictException ''User with this email already exists'')"
proof -
  let ?eve = "\<lparr> reg_email = ''eve@example.com'', reg_password = ''Str0ngPass'',
                 reg_firstName = ''Eve'', reg_lastName = ''Moe'' \<rparr>"
  let ?ann2 = "\<lparr> reg_email = ''ann@example.com'', reg_password = ''An0therPass'',
                 reg_firstName = ''Ann'', reg_lastName = ''Lee'' \<rparr>"
  have e: "email ann = ''ann@example.com''" by (simp add: ann_def)
  note first = register_outcomes[of "[ann]" ?eve example_hash example_sign "''u-eve''" 10]
  from first e
  have 1: "register example_hash example_sign ''u-eve'' 10 [ann] ?eve
     = Inr (\<lparr> auth_user = \<lparr> view_id = ''u-eve'', view_email = ''eve@example.com'',
                            view_firstName = ''Eve'', view_lastName = ''Moe'',
                            view_role = USER \<rparr>,
              access_token = ''jwt:u-eve:eve@example.com'' \<rparr>,
            [ann, \<lparr> user_id = ''u-eve'', email = ''eve@example.com'',
                    password = ''bcrypt:Str0ngPass'', firstName = ''Eve'', lastName = ''Moe'',
                    role = USER, isActive = True, createdAt = 10, updatedAt = 10 \<rparr>])"
    by (simp add: generateToken_def example_sign_def example_hash_def)
  from first e 1
  have 2: "register example_hash example_sign ''u-eve2'' 11
       [ann, \<lparr> user_id = ''u-eve'', email = ''eve@example.com'',
               password = ''bcrypt:Str0ngPass'', firstName = ''Eve'', lastName = ''Moe'',
               role = USER, isActive = True, createdAt = 10, updatedAt = 10 \<rparr>] ?eve
     = Inl (ConflictException ''User with this email already exists'')"
    by (simp add: generateToken_def example_sign_def example_hash_def)
  from register_outcomes[of "[ann]" ?ann2 example_hash example_sign "''u-ann2''" 12] e
  have 3: "register example_hash example_sign ''u-ann2'' 12 [ann] ?ann2
     = Inl (ConflictException ''User with this email already exists'')"
    by simp
  from 1 2 3 show ?thesis by simp
qed

section \<open>The roles guard\<close>

text \<open>
  Claim C10. \<open>RolesGuard.canActivate\<close> allows the request when the route declares no
  roles or an empty list of them. With roles declared, it fails with Forbidden when no
  user is attached and when the user's role is not among them, and allows the request
  when it is.
\<close>

theorem canActivate_outcomes:
  "((requiredRoles = None \<or> requiredRoles = Some []) \<longrightarrow>
       canActivate requiredRoles usr = Inr True)
   \<and> (\<forall>roles. requiredRoles = Some roles \<and> roles \<noteq> [] \<longrightarrow>
        (usr = None \<longrightarrow>
           canActivate requiredRoles usr = Inl (ForbiddenException ''User not authenticated''))
      \<and> (\<forall>u. usr = Some u \<longrightarrow>
           (role u \<in> set roles \<longrightarrow> canActivate requiredRoles usr = Inr True)
         \<and> (role u \<notin> set roles \<longrightarrow>
              canActivate requiredRoles usr =
                Inl (ForbiddenException
                      (''Access denied. Required role(s): '' @ join_roles roles)))))"
  by (auto simp add: canActivate_def list_ex_iff)

theorem canActivate_outcomes_witness:
  "canActivate None (Some ann) = Inr True
   \<and> canActivate (Some []) None = Inr True
   \<and> canActivate (Some [ADMIN]) None = Inl (ForbiddenException ''User not authenticated'')
   \<and> canActivate (Some [ADMIN]) (Some ann)
       = Inl (ForbiddenException ''Access denied. Required role(s): admin'')
   \<and> canActivate (Some [ADMIN]) (Some rita) = Inr True"
proof -
  have r: "role ann = USER" "role rita = ADMIN" by (simp_all add: ann_def rita_def)
  from canActivate_outcomes[of None "Some ann"]
  have 1: "canActivate None (Some ann) = Inr True" by simp
  from canActivate_outcomes[of "Some []" None]
  have 2: "canActivate (Some []) None = Inr True" by simp
  from canActivate_outcomes[of "Some [ADMIN]" None]
  have 3: "canActivate (Some [ADMIN]) None = Inl (ForbiddenException ''User not authenticated'')"
    by simp
  from canActivate_outcomes[of "Some [ADMIN]" "Some ann"] r
  have 4: "canActivate (Some [ADMIN]) (Some ann)
       = Inl (ForbiddenException ''Access denied. Required role(s): admin'')" by simp
  from canActivate_outcomes[of "Some [ADMIN]" "Some rita"] r
  have 5: "canActivate (Some [ADMIN]) (Some rita) = Inr True" by simp
  from 1 2 3 4 5 show ?thesis by simp
qed

section \<open>Listing tasks\<close>

lemma math_ceil_div_int: "math_ceil_div a b = - (- a div b)"
  by (simp add: math_ceil_div_def ceiling_divide_eq_div)

lemma build_result_consistent: "meta_consistent (meta (build_result tc f))"
  by (cases tc) (simp add: build_result_def meta_consistent_def math_ceil_div_def)

lemma build_result_meta:
  "meta_total (meta (build_result (getManyAndCount repo f u) f)) = int (length (query_where repo f u))"
  "meta_page (meta (build_result (getManyAndCount repo f u) f)) = page f"
  "meta_limit (meta (build_result (getManyAndCount repo f u) f)) = limit f"
  by (simp_all add: build_result_def getManyAndCount_def Let_def)

lemma cacheKey_prefix: "prefix ''tasks:'' (cacheKey js u f)"
  by (simp add: cacheKey_def)

lemma findAll_miss:
  "c (cacheKey js u f) = None \<Longrightarrow>
   findAll js c repo f u =
     (Listing (build_result (getManyAndCount repo f u) f),
      c(cacheKey js u f \<mapsto> Listing (build_result (getManyAndCount repo f u) f)))"
  by (simp add: findAll_def Let_def)

lemma findAll_hit:
  "c (cacheKey js u f) = Some r \<Longrightarrow> findAll js c repo f u = (r, c)"
  by (simp add: findAll_def Let_def)

lemma listings_consistent_empty: "listings_consistent Map.empty"
  by (simp add: listings_consistent_def)

lemma listings_consistent_update:
  "listings_consistent c \<Longrightarrow> meta_consistent (meta res) \<Longrightarrow>
   listings_consistent (c(k \<mapsto> Listing res))"
  by (simp add: listings_consistent_def)

lemma listings_consistent_http:
  "listings_consistent c \<Longrightarrow> listings_consistent (c(http_cache_key req \<mapsto> r))"
  by (auto simp add: listings_consistent_def http_cache_key_def prefix_def)

lemma listings_consistent_findAll:
  "listings_consistent c \<Longrightarrow> listings_consistent (snd (findAll js c repo f u))"
  by (cases "c (cacheKey js u f)")
     (simp_all add: findAll_miss findAll_hit listings_consistent_update build_result_consistent)

lemma listings_consistent_controller_findAll:
  assumes "listings_consistent c"
  shows "listings_consistent (snd (controller_findAll js repo c req))"
proof (cases "req_user req")
  case None
  with assms show ?thesis by (simp add: controller_findAll_def handleRequest_def)
next
  case (Some u)
  obtain r c1 where fa: "findAll js c repo (query req) u = (r, c1)" by (cases "findAll js c repo (query req) u")
  with listings_consistent_findAll[OF assms, of js repo "query req" u]
  have "listings_consistent c1" by simp
  with assms Some fa show ?thesis
    by (auto simp add: controller_findAll_def handleRequest_def intercept_def Let_def
        listings_consistent_http split: option.splits)
qed

lemma listings_consistent_writes:
  "listings_consistent (snd (snd (create nid now c repo d u)))"
  "listings_consistent c \<Longrightarrow> listings_consistent (snd (snd (update now c repo i p u)))"
  "listings_consistent c \<Longrightarrow> listings_consistent (snd (snd (remove c repo i u)))"
  by (simp_all add: create_def update_def remove_def invalidateTasksCache_def cache_reset_def
      listings_consistent_empty Let_def split: sum.splits prod.splits)

text \<open>
  Claim C6. In a cache that holds consistent listings (the empty cache does, and the
  operations keep it so), every result of \<open>findAll\<close> is a listing whose metadata has
  \<open>totalPages = ceil(total/limit)\<close>, \<open>hasNextPage = (page < totalPages)\<close> and
  \<open>hasPreviousPage = (page > 1)\<close>. When the result is computed, \<open>total\<close> is the number
  of rows the WHERE clause selects, before ordering and pagination, and \<open>page\<close> and
  \<open>limit\<close> are the request's. The filter is one the DTO's validators accept.
\<close>

theorem findAll_page_meta:
  assumes ok: "listings_consistent c" and v: "valid_filter f"
  shows "\<exists>res. fst (findAll js c repo f u) = Listing res
             \<and> meta_consistent (meta res)
             \<and> listings_consistent (snd (findAll js c repo f u))
             \<and> (c (cacheKey js u f) = None \<longrightarrow>
                  meta_total (meta res) = int (length (query_where repo f u))
                  \<and> meta_page (meta res) = page f \<and> meta_limit (meta res) = limit f)"
proof (cases "c (cacheKey js u f)")
  case None
  let ?res = "build_result (getManyAndCount repo f u) f"
  have "fst (findAll js c repo f u) = Listing ?res"
    and "snd (findAll js c repo f u) = c(cacheKey js u f \<mapsto> Listing ?res)"
    using None by (simp_all add: findAll_miss)
  with ok show ?thesis
    by (auto simp add: build_result_consistent build_result_meta listings_consistent_update)
next
  case (Some r)
  with ok cacheKey_prefix[of js u f] obtain res where "r = Listing res" "meta_consistent (meta res)"
    unfolding listings_consistent_def by blast
  with Some ok show ?thesis by (simp add: findAll_hit)
qed

text \<open>25 rows of Ann's, page 3 with 10 rows a page.\<close>

theorem findAll_page_meta_witness:
  "listings_consistent Map.empty
   \<and> valid_filter (default_filter\<lparr> page := 3, limit := 10 \<rparr>)
   \<and> listing_meta (fst (findAll example_stringify Map.empty (numbered_tasks 25)
                           (default_filter\<lparr> page := 3, limit := 10 \<rparr>) ann))
       = Some \<lparr> meta_total = 25, meta_page = 3, meta_limit = 10, totalPages = 3,
                hasNextPage = False, hasPreviousPage = True \<rparr>"
proof -
  let ?f = "default_filter\<lparr> page := 3, limit := 10 \<rparr>"
  have v: "valid_filter ?f" by (simp add: valid_filter_def default_filter_def)
  have n: "length (query_where (numbered_tasks 25) ?f ann) = 25"
    by (simp add: query_where_def numbered_tasks_def default_filter_def ann_def o_def)
  have pl: "page ?f = 3" "limit ?f = 10" by (simp_all add: default_filter_def)
  from findAll_page_meta[OF listings_consistent_empty v, of example_stringify "numbered_tasks 25" ann]
  obtain res where r: "fst (findAll example_stringify Map.empty (numbered_tasks 25) ?f ann) = Listing res"
    and m: "meta_consistent (meta res)"
    and t: "meta_total (meta res) = int (length (query_where (numbered_tasks 25) ?f ann))"
           "meta_page (meta res) = page ?f" "meta_limit (meta res) = limit ?f"
    by auto
  from m t n pl have "meta res = \<lparr> meta_total = 25, meta_page = 3, meta_limit = 10, totalPages = 3,
                hasNextPage = False, hasPreviousPage = True \<rparr>"
    by (cases "meta res") (simp add: meta_consistent_def)
  with r v listings_consistent_empty show ?thesis by simp
qed

section \<open>Writes and the cache\<close>

lemma recomputes_empty: "recomputes js repo Map.empty"
  by (simp add: recomputes_def findAll_miss)

text \<open>
  Claim C8. After \<open>create\<close>, and after an \<open>update\<close> or a \<open>remove\<close> that did not throw,
  the cache is empty, whoever the user is and whatever it held: every list call that
  follows, of any user and with any criteria, computes its result from the table. An
  \<open>update\<close> or \<open>remove\<close> that throws has written nothing and leaves the table and the
  cache as they were. Each function returns its result, the table and the cache.
\<close>

theorem writes_reset_cache:
  "snd (snd (create nid now c repo d u)) = Map.empty
   \<and> recomputes js (fst (snd (create nid now c repo d u))) (snd (snd (create nid now c repo d u)))
   \<and> (\<forall>t. fst (update now c repo i p u) = Inr t \<longrightarrow>
          snd (snd (update now c repo i p u)) = Map.empty
          \<and> recomputes js (fst (snd (update now c repo i p u)))
                (snd (snd (update now c repo i p u))))
   \<and> (\<forall>e. fst (update now c repo i p u) = Inl e \<longrightarrow>
          snd (update now c repo i p u) = (repo, c))
   \<and> (\<forall>x. fst (remove c repo i u) = Inr x \<longrightarrow>
          snd (snd (remove c repo i u)) = Map.empty
          \<and> recomputes js (fst (snd (remove c repo i u))) (snd (snd (remove c repo i u))))
   \<and> (\<forall>e. fst (remove c repo i u) = Inl e \<longrightarrow> snd (remove c repo i u) = (repo, c))"
  by (simp add: create_def update_def remove_def invalidateTasksCache_def cache_reset_def
      recomputes_empty Let_def split: sum.splits prod.splits)

text \<open>
  Ann's listing is in the cache. Bob creates a task, or updates or removes his own: the
  cache is empty afterwards. Ann's attempt to update Bob's task throws Forbidden and
  leaves the cache as it was.
\<close>

theorem writes_reset_cache_witness:
  "snd (snd (create ''t-5'' 20
        (snd (findAll example_stringify Map.empty [ann_task, bob_task] default_filter ann))
        [ann_task, bob_task]
        \<lparr> new_title = ''Call mum'', new_description = None, new_status = None,
          new_priority = None, new_dueDate = None \<rparr> bob)) = Map.empty
   \<and> snd (snd (update 21
        (snd (findAll example_stringify Map.empty [ann_task, bob_task] default_filter ann))
        [ann_task, bob_task] ''t-1''
        \<lparr> upd_title = None, upd_description = None, upd_status = Some DONE,
          upd_priority = None, upd_dueDate = None \<rparr> bob)) = Map.empty
   \<and> snd (snd (remove
        (snd (findAll example_stringify Map.empty [ann_task, bob_task] default_filter ann))
        [ann_task, bob_task] ''t-1'' bob)) = Map.empty
   \<and> snd (snd (update 22
        (snd (findAll example_stringify Map.empty [ann_task, bob_task] default_filter ann))
        [ann_task, bob_task] ''t-1''
        \<lparr> upd_title = None, upd_description = None, upd_status = Some DONE,
          upd_priority = None, upd_dueDate = None \<rparr> ann))
       = snd (findAll example_stringify Map.empty [ann_task, bob_task] default_filter ann)"
proof -
  let ?c = "snd (findAll example_stringify Map.empty [ann_task, bob_task] default_filter ann)"
  let ?new = "\<lparr> new_title = ''Call mum'', new_description = None, new_status = None,
          new_priority = None, new_dueDate = None \<rparr>"
  let ?p = "\<lparr> upd_title = None, upd_description = None, upd_status = Some DONE,
          upd_priority = None, upd_dueDate = None \<rparr>"
  have fb: "findOne [ann_task, bob_task] ''t-1'' bob = Inr bob_task"
    by (simp add: findOne_def ann_task_def bob_task_def bob_def)
  have fa: "findOne [ann_task, bob_task] ''t-1'' ann
              = Inl (ForbiddenException ''You can only access your own tasks'')"
    by (simp add: findOne_def ann_task_def bob_task_def ann_def)
  have ub: "\<exists>t. fst (update 21 ?c [ann_task, bob_task] ''t-1'' ?p bob) = Inr t"
    using fb by (simp add: update_def split: prod.splits)
  have rb: "fst (remove ?c [ann_task, bob_task] ''t-1'' bob) = Inr ()"
    using fb by (simp add: remove_def)
  have ua: "\<exists>e. fst (update 22 ?c [ann_task, bob_task] ''t-1'' ?p ann) = Inl e"
    using fa by (simp add: update_def)
  note w = writes_reset_cache[where nid = "''t-5''" and now = 20 and c = ?c
      and repo = "[ann_task, bob_task]" and d = ?new and u = bob and js = example_stringify]
  from w have 1: "snd (snd (create ''t-5'' 20 ?c [ann_task, bob_task] ?new bob)) = Map.empty"
    by simp
  from ub writes_reset_cache[where now = 21 and c = ?c and repo = "[ann_task, bob_task]"
      and u = bob and i = "''t-1''" and p = ?p]
  have 2: "snd (snd (update 21 ?c [ann_task, bob_task] ''t-1'' ?p bob)) = Map.empty"
    by blast
  from rb writes_reset_cache[where c = ?c and repo = "[ann_task, bob_task]"
      and u = bob and i = "''t-1''"]
  have 3: "snd (snd (remove ?c [ann_task, bob_task] ''t-1'' bob)) = Map.empty"
    by blast
  from ua writes_reset_cache[where now = 22 and c = ?c and repo = "[ann_task, bob_task]"
      and u = ann and i = "''t-1''" and p = ?p]
  have "snd (update 22 ?c [ann_task, bob_task] ''t-1'' ?p ann) = ([ann_task, bob_task], ?c)"
    by blast
  then have 4: "snd (snd (update 22 ?c [ann_task, bob_task] ''t-1'' ?p ann)) = ?c"
    by simp
  from 1 2 3 4 show ?thesis by simp
qed

section \<open>Repeated list calls\<close>

lemma same_criteria_same_result:
  assumes "criteria f2 = criteria f1" and "user_id u2 = user_id u1"
  shows "build_result (getManyAndCount repo f2 u2) f2 = build_result (getManyAndCount repo f1 u1) f1"
proof -
  from assms(1) have "filter_status f2 = filter_status f1" "filter_priority f2 = filter_priority f1"
    "search f2 = search f1" "page f2 = page f1" "limit f2 = limit f1"
    "sortBy f2 = sortBy f1" "sortOrder f2 = sortOrder f1"
    by (simp_all add: criteria_def)
  with assms(2) show ?thesis
    by (simp add: build_result_def getManyAndCount_def query_where_def)
qed

lemma findAll_stores:
  "findAll js c repo f u = (r, c') \<Longrightarrow> c' (cacheKey js u f) = Some r"
  by (auto simp add: findAll_def Let_def split: option.splits)

lemma example_keys_differ:
  "cacheKey JSON_stringify ann medium_done_filter \<noteq> cacheKey JSON_stringify ann done_medium_filter"
  by code_simp

text \<open>
  Claim C9 says that the key of a listing is a function of the owner's id and the
  criteria value, so that the second of two list calls with the same criteria is
  answered from the cache. The key is made of \<open>JSON.stringify(filterDto)\<close>, which writes
  the properties of the DTO in their order. Ann asks for \<open>?status=done&priority=medium\<close>
  and then for \<open>?priority=medium&status=done\<close>: the criteria are the same, the keys
  differ, the cache the first call left has nothing under the second key, and the second
  call stores a listing of its own.
\<close>

theorem cache_key_follows_property_order:
  "criteria medium_done_filter = criteria done_medium_filter
   \<and> cacheKey JSON_stringify ann medium_done_filter
       \<noteq> cacheKey JSON_stringify ann done_medium_filter
   \<and> snd (findAll JSON_stringify Map.empty [ann_task, report_task] done_medium_filter ann)
         (cacheKey JSON_stringify ann medium_done_filter) = None
   \<and> snd (findAll JSON_stringify
            (snd (findAll JSON_stringify Map.empty [ann_task, report_task] done_medium_filter ann))
            [ann_task, report_task] medium_done_filter ann)
       \<noteq> snd (findAll JSON_stringify Map.empty [ann_task, report_task] done_medium_filter ann)"
proof -
  let ?c1 = "snd (findAll JSON_stringify Map.empty [ann_task, report_task] done_medium_filter ann)"
  let ?k2 = "cacheKey JSON_stringify ann medium_done_filter"
  have crit: "criteria medium_done_filter = criteria done_medium_filter"
    by (simp add: criteria_def medium_done_filter_def done_medium_filter_def)
  have miss: "?c1 ?k2 = None"
    using example_keys_differ by (simp add: findAll_miss)
  have "snd (findAll JSON_stringify ?c1 [ann_task, report_task] medium_done_filter ann) ?k2 \<noteq> None"
    using miss by (simp add: findAll_miss)
  with miss have "snd (findAll JSON_stringify ?c1 [ann_task, report_task] medium_done_filter ann) \<noteq> ?c1"
    by metis
  with crit example_keys_differ miss show ?thesis by simp
qed

text \<open>
  Claim C9, amended. The key of a listing depends on the user's id and on the DTO, the
  criteria with their properties in order, only. After a list call, the same call with
  the same DTO on the cache it left returns the same payload and leaves the cache
  unchanged, whatever the table holds by then: it is answered from the cache. A call with
  the same criteria under a key that the cache does not hold is computed from the table,
  and on the unchanged table it gives the payload the first call computed.
\<close>

theorem findAll_twice_same_dto:
  assumes "findAll js c repo f u = (r, c')" and "user_id u' = user_id u"
  shows "cacheKey js u' f = cacheKey js u f
       \<and> findAll js c' repo' f u' = (r, c')
       \<and> (\<forall>f2. criteria f2 = criteria f \<and> c (cacheKey js u f) = None
                \<and> c' (cacheKey js u' f2) = None \<longrightarrow>
              fst (findAll js c' repo f2 u') = r)"
proof (intro conjI allI impI)
  show k: "cacheKey js u' f = cacheKey js u f" using assms(2) by (simp add: cacheKey_def)
  from assms(1) have "c' (cacheKey js u f) = Some r" by (rule findAll_stores)
  with k show "findAll js c' repo' f u' = (r, c')" by (simp add: findAll_hit)
next
  fix f2
  assume h: "criteria f2 = criteria f \<and> c (cacheKey js u f) = None
               \<and> c' (cacheKey js u' f2) = None"
  with assms(1) have r: "r = Listing (build_result (getManyAndCount repo f u) f)"
    by (simp add: findAll_miss)
  from h assms(2) have "build_result (getManyAndCount repo f2 u') f2
                          = build_result (getManyAndCount repo f u) f"
    by (intro same_criteria_same_result) simp_all
  with h r show "fst (findAll js c' repo f2 u') = r" by (simp add: findAll_miss)
qed

text \<open>
  Ann lists her done tasks of medium priority. The same call on the cache that call left,
  with the table emptied meanwhile, gives the same payload and the same cache. The call
  with the two filters in the other order gives the same payload on the unchanged table.
\<close>

theorem findAll_twice_same_dto_witness:
  "findAll JSON_stringify
       (snd (findAll JSON_stringify Map.empty [ann_task, report_task] done_medium_filter ann))
       [] done_medium_filter ann
     = findAll JSON_stringify Map.empty [ann_task, report_task] done_medium_filter ann
   \<and> fst (findAll JSON_stringify
            (snd (findAll JSON_stringify Map.empty [ann_task, report_task] done_medium_filter ann))
            [ann_task, report_task] medium_done_filter ann)
     = fst (findAll JSON_stringify Map.empty [ann_task, report_task] done_medium_filter ann)
   \<and> listing_meta (fst (findAll JSON_stringify Map.empty [ann_task, report_task]
                           done_medium_filter ann))
       = Some \<lparr> meta_total = 1, meta_page = 1, meta_limit = 10, totalPages = 1,
                hasNextPage = False, hasPreviousPage = False \<rparr>"
proof -
  obtain r c' where
    fa: "findAll JSON_stringify Map.empty [ann_task, report_task] done_medium_filter ann = (r, c')"
    by (cases "findAll JSON_stringify Map.empty [ann_task, report_task] done_medium_filter ann")
  note t = findAll_twice_same_dto[OF fa refl]
  from t[of "[]"] fa
  have 1: "findAll JSON_stringify
       (snd (findAll JSON_stringify Map.empty [ann_task, report_task] done_medium_filter ann))
       [] done_medium_filter ann
     = findAll JSON_stringify Map.empty [ann_task, report_task] done_medium_filter ann"
    by simp
  have crit: "criteria medium_done_filter = criteria done_medium_filter"
    by (simp add: criteria_def medium_done_filter_def done_medium_filter_def)
  have miss: "c' (cacheKey JSON_stringify ann medium_done_filter) = None"
    using fa example_keys_differ by (auto simp add: findAll_miss)
  from t[of "[]"] crit miss
  have "fst (findAll JSON_stringify c' [ann_task, report_task] medium_done_filter ann) = r"
    by simp
  with fa have 2: "fst (findAll JSON_stringify
            (snd (findAll JSON_stringify Map.empty [ann_task, report_task] done_medium_filter ann))
            [ann_task, report_task] medium_done_filter ann)
     = fst (findAll JSON_stringify Map.empty [ann_task, report_task] done_medium_filter ann)"
    by simp
  have 3: "listing_meta (fst (findAll JSON_stringify Map.empty [ann_task, report_task]
                           done_medium_filter ann))
       = Some \<lparr> meta_total = 1, meta_page = 1, meta_limit = 10, totalPages = 1,
                hasNextPage = False, hasPreviousPage = False \<rparr>"
    by code_simp
  from 1 2 3 show ?thesis by simp
qed

section \<open>The response cache of the GET routes\<close>

lemma intercept_stores:
  "req_method req = ''GET'' \<Longrightarrow> intercept c req h = (Inr r, c') \<Longrightarrow>
   c' (http_cache_key req) = Some r"
  by (auto simp add: intercept_def Let_def split: option.splits sum.splits prod.splits)

lemma intercept_hit:
  "req_method req = ''GET'' \<Longrightarrow> c (http_cache_key req) = Some r \<Longrightarrow>
   intercept c req h = (Inr r, c)"
  by (simp add: intercept_def Let_def)

lemma http_cache_key_user: "http_cache_key (req\<lparr> req_user := x \<rparr>) = http_cache_key req"
  by (simp add: http_cache_key_def)

text \<open>
  Claim C2. The key under which \<open>HttpCacheInterceptor\<close> stores a response is made of the
  URL only. So when a GET request of user A has been answered with a response, a GET
  request of another user B for the same URL, on the cache as A's request left it, is
  answered with that same response, and B's own handler is not run: the answer is the
  same whatever that handler would give.
\<close>

theorem intercept_serves_other_user:
  assumes "req_method reqA = ''GET''" and "req_method reqB = ''GET''"
    and "url reqB = url reqA"
    and "req_user reqA = Some A" and "req_user reqB = Some B" and "user_id A \<noteq> user_id B"
    and "intercept c reqA handleA = (Inr rA, c')"
  shows "http_cache_key reqB = http_cache_key reqA
       \<and> intercept c' reqB handleB = (Inr rA, c')"
proof -
  have k: "http_cache_key reqB = http_cache_key reqA"
    using assms(3) by (simp add: http_cache_key_def)
  from assms(1) assms(7) k have "c' (http_cache_key reqB) = Some rA"
    by (simp add: intercept_stores)
  with assms(2) k show ?thesis by (simp add: intercept_hit)
qed

text \<open>
  Ann and Bob each own one task. Ann's \<open>GET /api/v1/tasks\<close> is answered with her
  listing; Bob's, right after, is answered with Ann's listing, although the handler of
  his request lists for Bob.
\<close>

theorem intercept_serves_other_user_witness:
  "fst (intercept
         (snd (intercept Map.empty (get_tasks ann)
                 (\<lambda>c0. case findAll example_stringify c0 [ann_task, bob_task] default_filter ann
                        of (r, c1) \<Rightarrow> (Inr r, c1))))
         (get_tasks bob)
         (\<lambda>c0. case findAll example_stringify c0 [ann_task, bob_task] default_filter bob
                of (r, c1) \<Rightarrow> (Inr r, c1)))
     = Inr (Listing \<lparr> data = [ann_task],
                      meta = \<lparr> meta_total = 1, meta_page = 1, meta_limit = 10, totalPages = 1,
                               hasNextPage = False, hasPreviousPage = False \<rparr> \<rparr>)"
proof -
  let ?hA = "\<lambda>c0. case findAll example_stringify c0 [ann_task, bob_task] default_filter ann
                  of (r, c1) \<Rightarrow> (Inr r :: http_exception + payload, c1)"
  let ?hB = "\<lambda>c0. case findAll example_stringify c0 [ann_task, bob_task] default_filter bob
                  of (r, c1) \<Rightarrow> (Inr r :: http_exception + payload, c1)"
  let ?L = "Listing \<lparr> data = [ann_task],
                      meta = \<lparr> meta_total = 1, meta_page = 1, meta_limit = 10, totalPages = 1,
                               hasNextPage = False, hasPreviousPage = False \<rparr> \<rparr>"
  have g: "req_method (get_tasks ann) = ''GET''" "req_method (get_tasks bob) = ''GET''"
    "url (get_tasks bob) = url (get_tasks ann)"
    "req_user (get_tasks ann) = Some ann" "req_user (get_tasks bob) = Some bob"
    "user_id ann \<noteq> user_id bob"
    by (simp_all add: get_tasks_def ann_def bob_def)
  have fa: "fst (findAll example_stringify Map.empty [ann_task, bob_task] default_filter ann) = ?L"
    by (simp add: findAll_miss build_result_def getManyAndCount_def query_where_def
        default_filter_def ann_def ann_task_def bob_task_def math_ceil_div_int)
  obtain c0 where "findAll example_stringify Map.empty [ann_task, bob_task] default_filter ann
                     = (?L, c0)"
    using fa by (cases "findAll example_stringify Map.empty [ann_task, bob_task] default_filter ann") simp
  with g(1) have "\<exists>c'. intercept Map.empty (get_tasks ann) ?hA = (Inr ?L, c')"
    by (simp add: intercept_def Let_def)
  then obtain c' where a: "intercept Map.empty (get_tasks ann) ?hA = (Inr ?L, c')" ..
  from intercept_serves_other_user[OF g a, of ?hB] a show ?thesis by simp
qed

lemma controller_findAll_serves_other_user:
  assumes "req_method reqA = ''GET''" and "req_method reqB = ''GET''"
    and "url reqB = url reqA"
    and "req_user reqA = Some A" and "req_user reqB = Some B"
    and "controller_findAll js repo c reqA = (Inr rA, c')"
  shows "controller_findAll js repo' c' reqB = (Inr rA, c')"
proof -
  have k: "http_cache_key reqB = http_cache_key reqA"
    using assms(3) by (simp add: http_cache_key_def)
  from assms(4,6) have "c' (http_cache_key reqA) = Some rA"
    using assms(1) intercept_stores by (simp add: controller_findAll_def handleRequest_def)
  with k have "c' (http_cache_key reqB) = Some rA" by simp
  with assms(2) assms(5) show ?thesis
    by (simp add: controller_findAll_def handleRequest_def intercept_hit)
qed

text \<open>
  The same on the route of one task. Bob reads his task; Ann, who is not an admin, asks
  for the same URL on the cache Bob's request left and is answered with Bob's task. On
  an empty cache her request fails with Forbidden.
\<close>

lemma controller_findOne_serves_other_user_example:
  "controller_findOne [ann_task, bob_task] Map.empty (get_task ''t-1'' ann) ''t-1''
     = (Inl (ForbiddenException ''You can only access your own tasks''), Map.empty)
   \<and> fst (controller_findOne [ann_task, bob_task] Map.empty (get_task ''t-1'' bob) ''t-1'')
     = Inr (Single bob_task)
   \<and> fst (controller_findOne [ann_task, bob_task]
            (snd (controller_findOne [ann_task, bob_task] Map.empty (get_task ''t-1'' bob) ''t-1''))
            (get_task ''t-1'' ann) ''t-1'')
     = Inr (Single bob_task)"
proof -
  have fb: "findOne [ann_task, bob_task] ''t-1'' bob = Inr bob_task"
    by (simp add: findOne_def ann_task_def bob_task_def bob_def)
  have fa: "findOne [ann_task, bob_task] ''t-1'' ann
              = Inl (ForbiddenException ''You can only access your own tasks'')"
    by (simp add: findOne_def ann_task_def bob_task_def ann_def)
  show ?thesis
    by (simp add: controller_findOne_def handleRequest_def intercept_def Let_def fa fb
        get_task_def http_cache_key_def)
qed

section \<open>The search filter\<close>

lemma query_where_filter:
  "query_where repo f u =
     filter (\<lambda>t. userId t = user_id u
               \<and> (\<forall>s. filter_status f = Some s \<longrightarrow> status t = s)
               \<and> (\<forall>p. filter_priority f = Some p \<longrightarrow> priority t = p)
               \<and> (\<forall>s. search f = Some s \<longrightarrow> s \<noteq> [] \<longrightarrow> search_hit s t)) repo"
  by (auto simp add: query_where_def Let_def split: option.splits intro: filter_cong)

lemma getManyAndCount_rows:
  "set (fst (getManyAndCount repo f u)) \<subseteq> set (query_where repo f u)"
  "snd (getManyAndCount repo f u) = int (length (query_where repo f u))"
proof -
  have "set (orderBy (sortBy f) (sortOrder f) (query_where repo f u)) = set (query_where repo f u)"
    by (cases "sortOrder f") simp_all
  then show "set (fst (getManyAndCount repo f u)) \<subseteq> set (query_where repo f u)"
    using set_take_subset set_drop_subset
    by (fastforce simp add: getManyAndCount_def Let_def)
  show "snd (getManyAndCount repo f u) = int (length (query_where repo f u))"
    by (simp add: getManyAndCount_def Let_def)
qed

text \<open>How \<open>LIKE\<close> reads a pattern \<open>%s%\<close> whose \<open>s\<close> is literal: as "contains \<open>s\<close>".\<close>

lemma like_match_percent: "like_match ''%'' t"
  by (induction t) simp_all

lemma like_match_literal_prefix:
  "literal_text s \<Longrightarrow> like_match (s @ ''%'') t = prefix s t"
proof (induction s arbitrary: t)
  case Nil
  then show ?case by (simp add: like_match_percent)
next
  case (Cons a s)
  then have a: "a \<noteq> CHR ''%''" "a \<noteq> CHR ''_''" "a \<noteq> CHR 0x5C" and s: "literal_text s"
    by (simp_all add: literal_text_def)
  show ?case
  proof (cases t)
    case Nil
    with a show ?thesis by simp
  next
    case (Cons c cs)
    with a Cons.IH[OF s, of cs] show ?thesis by auto
  qed
qed

lemma like_match_percent_suffix:
  "like_match (CHR ''%'' # q) t = (\<exists>v. suffix v t \<and> like_match q v)"
proof (induction t)
  case Nil
  then show ?case by simp
next
  case (Cons c cs)
  have "like_match (CHR ''%'' # q) (c # cs) =
          (like_match q (c # cs) \<or> like_match (CHR ''%'' # q) cs)" by simp
  also have "\<dots> = (like_match q (c # cs) \<or> (\<exists>v. suffix v cs \<and> like_match q v))"
    using Cons.IH by simp
  also have "\<dots> = (\<exists>v. suffix v (c # cs) \<and> like_match q v)"
    by (auto simp add: suffix_Cons)
  finally show ?case .
qed

lemma like_match_contains:
  assumes "literal_text s"
  shows "like_match (''%'' @ s @ ''%'') t = sublist s t"
proof -
  have "like_match (''%'' @ s @ ''%'') t = (\<exists>v. suffix v t \<and> like_match (s @ ''%'') v)"
    using like_match_percent_suffix[of "s @ ''%''" t] by simp
  also have "\<dots> = (\<exists>v. suffix v t \<and> prefix s v)"
    using assms by (simp add: like_match_literal_prefix)
  also have "\<dots> = sublist s t" by (simp add: sublist_altdef')
  finally show ?thesis .
qed

lemma lower_char_code:
  "(of_char (lower_char c) :: nat) =
     (if 65 \<le> (of_char c :: nat) \<and> (of_char c :: nat) \<le> 90 then of_char c + 32 else of_char c)"
  by (simp add: lower_char_def Let_def)

lemma lower_char_eq_other:
  assumes "(of_char d :: nat) < 65 \<or> (90 < (of_char d :: nat) \<and> (of_char d :: nat) < 97)"
  shows "(lower_char c = d) = (c = d)"
proof
  assume "lower_char c = d"
  then have "(of_char (lower_char c) :: nat) = of_char d" by simp
  with assms have "\<not> (65 \<le> (of_char c :: nat) \<and> (of_char c :: nat) \<le> 90)"
    by (auto simp add: lower_char_code split: if_splits)
  with \<open>lower_char c = d\<close> show "c = d" by (simp add: lower_char_def Let_def)
next
  assume "c = d"
  with assms show "lower_char c = d" by (auto simp add: lower_char_def Let_def)
qed

lemma lower_char_wild:
  "(lower_char c = CHR ''%'') = (c = CHR ''%'')"
  "(lower_char c = CHR ''_'') = (c = CHR ''_'')"
  "(lower_char c = CHR 0x5C) = (c = CHR 0x5C)"
  by (simp_all add: lower_char_eq_other)

lemma literal_text_lower: "literal_text (lower s) = literal_text s"
  by (simp add: literal_text_def lower_def lower_char_wild)

lemma lower_pattern: "lower (''%'' @ s @ ''%'') = ''%'' @ lower s @ ''%''"
  using lower_char_wild(1)[of "CHR ''%''"] by (simp add: lower_def)

lemma ilike_contains:
  "literal_text s \<Longrightarrow> ilike t (''%'' @ s @ ''%'') = contains_ci s t"
  unfolding ilike_def contains_ci_def lower_pattern
  by (rule like_match_contains) (simp add: literal_text_lower)

lemma search_hit_literal:
  assumes "literal_text s"
  shows "search_hit s t =
           (contains_ci s (title t) \<or> (\<exists>d. description t = Some d \<and> contains_ci s d))"
proof -
  have "ilike_nullable (description t) (''%'' @ s @ ''%'') =
          (\<exists>d. description t = Some d \<and> contains_ci s d)"
    using assms
    by (cases "description t")
       (simp_all only: ilike_nullable_def ilike_contains option.case, simp_all)
  then show ?thesis
    using assms by (simp only: search_hit_def ilike_contains)
qed

text \<open>
  For a literal search text, the rows the query selects are the rows of claim C7: the
  caller's, with the status and the priority of the filters that are present, and with
  the search text, when present, contained in the title or in the description.
\<close>

lemma query_where_literal:
  assumes "\<forall>s. search f = Some s \<longrightarrow> literal_text s"
  shows "query_where repo f u =
     filter (\<lambda>t. userId t = user_id u
               \<and> (\<forall>s. filter_status f = Some s \<longrightarrow> status t = s)
               \<and> (\<forall>p. filter_priority f = Some p \<longrightarrow> priority t = p)
               \<and> (\<forall>s. search f = Some s \<longrightarrow>
                      contains_ci s (title t)
                      \<or> (\<exists>d. description t = Some d \<and> contains_ci s d))) repo"
proof -
  have "\<And>t s. search f = Some s \<Longrightarrow>
          (s \<noteq> [] \<longrightarrow> search_hit s t) =
          (contains_ci s (title t) \<or> (\<exists>d. description t = Some d \<and> contains_ci s d))"
    using assms by (auto simp add: search_hit_literal contains_ci_def lower_def)
  then show ?thesis
    unfolding query_where_filter by (intro filter_cong refl) auto
qed

text \<open>
  Claim C7 says that, with a search text, the listing has exactly the caller's rows that
  contain the text in the title or in the description (and pass the other filters). The
  code passes the text to \<open>ILIKE\<close> between two \<open>%\<close> without escaping it, so \<open>_\<close>, \<open>%\<close> and
  the backslash in the text are read as pattern characters. Ann filters by status
  \<open>done\<close> and searches for \<open>re_o\<close>: the query returns both of her done tasks,
  "Reboot server" and "Quarterly Report", and neither contains \<open>re_o\<close>.
\<close>

theorem search_wildcard_selects_rows_without_the_text:
  "getManyAndCount [report_task, reboot_task, bob_task, ann_task]
       (default_filter\<lparr> filter_status := Some DONE, search := Some ''re_o'' \<rparr>) ann
     = ([reboot_task, report_task], 2)
   \<and> \<not> contains_ci ''re_o'' (title reboot_task) \<and> description reboot_task = None
   \<and> \<not> contains_ci ''re_o'' (title report_task) \<and> description report_task = None"
  by code_simp

end
